theory Spec2Isabelle
  imports Main "HOL-Library.AList" "HOL-Library.Sublist"
begin

section \<open>The "add people to channel" screen\<close>

text \<open>
  A shallow embedding of \<^verbatim>\<open>app/screens/channel_add_people/channel_add_people.tsx\<close>.
  The React component is a record of its \<^verbatim>\<open>useState\<close> cells and \<^verbatim>\<open>useRef\<close> cells;
  every callback of the component is a function from the state before the call to the
  state after it. Calls to the collaborators the file imports (the remote actions, the
  alert helper, the keyboard and the navigation stack) are appended to a log, so that
  "calls the API", "shows an alert" and "closes the screen" are facts about that log.

  An \<^verbatim>\<open>async\<close> callback is cut at its \<^verbatim>\<open>await\<close>: the part before it issues the request,
  the part after it is a second function that receives the response. Timers are
  entries of a table of pending timers; real time is not modelled, a timer fires when
  the event \<open>TimerFires\<close> is delivered.

  React renders the component again after every event it delivers, and a callback
  reads the \<^verbatim>\<open>useState\<close> values of the render that built it. Every callback but one
  lists these values among its dependencies and runs when it is called, so it reads
  them from the state it is applied to. The exception is \<^verbatim>\<open>getProfiles\<close>: its body runs
  after the debounce delay, with the \<^verbatim>\<open>loading\<close> and \<^verbatim>\<open>term\<close> of the render that built the
  callback that was called, and these are kept apart from the state the body runs in.
\<close>

subsection \<open>Data\<close>

text \<open>A user profile is opaque to the screen beyond \<^verbatim>\<open>id\<close> and \<^verbatim>\<open>username\<close>.\<close>

record UserProfile =
  user_id :: string
  username :: string

text \<open>
  \<^verbatim>\<open>selectedIds\<close> is a JavaScript object used as a dictionary from user id to profile.
  Its own keys are kept in insertion order, so it is an association list with
  \<open>map_of\<close> as lookup. User ids are server identifiers: none of them is the name of a
  property that an object literal inherits.
\<close>

type_synonym selection = "(string \<times> UserProfile) list"

text \<open>The error of a failed remote call, with its displayable reason when it has one.\<close>

datatype api_error = ApiError (reason: "string option")

text \<open>Calls to the imported collaborators, with their arguments.\<close>

datatype effect =
    FetchProfilesNotInChannel string string string bool int nat
  | SearchProfiles string string string string bool
  | AddMembersToChannel string string "string list" string bool
  | Alert string
  | KeyboardDismiss
  | PopTopScreen

text \<open>
  The props of the component and the constants of \<^verbatim>\<open>General\<close> it reads
  (\<^verbatim>\<open>@constants\<close> is not part of the sources, so the constants are parameters).
\<close>

record env =
  serverUrl :: string
  currentChannelId :: string
  groupConstrained :: bool
  currentTeamId :: string
  currentUserId :: string
  MAX_USERS_ADD_TO_CHANNEL :: nat
  PROFILE_CHUNK_SIZE :: nat

text \<open>
  The state: the \<^verbatim>\<open>useState\<close> cells, the \<^verbatim>\<open>.current\<close> of each \<^verbatim>\<open>useRef\<close>, and what the
  host keeps for the component: the dependency value of the toast effect at its last
  run, the \<^verbatim>\<open>getProfiles\<close> callback of the last render (its number, and the \<^verbatim>\<open>loading\<close>
  and \<^verbatim>\<open>term\<close> it closes over), the debounced calls that have not run yet (each with the
  number and the closure of the callback that was called), the pending timers, the
  number of timers created so far, the number of profile requests that were issued
  and have not completed, and the log of calls.
  The layout cells (\<^verbatim>\<open>containerHeight\<close>, \<^verbatim>\<open>mainView\<close>) are read by no callback and are left out.
\<close>

record screen =
  profiles :: "UserProfile list"
  searchResults :: "UserProfile list"
  loading :: bool
  term_text :: string
  startingAddPeople :: bool
  selectedIds :: selection
  showToast :: bool
  searchTimeoutId_current :: "nat option"
  next_current :: bool
  page_current :: int
  mounted_current :: bool
  toastDeps :: "bool option"
  getProfiles_instance :: nat
  getProfiles_loading :: bool
  getProfiles_term :: string
  debounced :: "(nat \<times> bool \<times> string) list"
  timers :: "(nat \<times> string) list"
  timerCount :: nat
  fetchesInFlight :: nat
  effects :: "effect list"

definition initial :: screen where
  "initial = \<lparr> profiles = [], searchResults = [], loading = False, term_text = [],
     startingAddPeople = False, selectedIds = [], showToast = False,
     searchTimeoutId_current = None, next_current = True, page_current = - 1,
     mounted_current = False, toastDeps = None, getProfiles_instance = 0,
     getProfiles_loading = False, getProfiles_term = [], debounced = [],
     timers = [], timerCount = 0, fetchesInFlight = 0, effects = [] \<rparr>"

subsection \<open>Module-level definitions\<close>

definition close :: "screen \<Rightarrow> screen" where
  "close s = s\<lparr>effects := effects s @ [KeyboardDismiss, PopTopScreen]\<rparr>"

definition messages_error :: string where
  "messages_error =
     ''We could not add those users to the channel. Please check your connection and try again.''"

definition MAX_SELECTED_USERS :: "env \<Rightarrow> nat" where
  "MAX_SELECTED_USERS e = MAX_USERS_ADD_TO_CHANNEL e"

text \<open>\<^verbatim>\<open>Object.assign({}, list)\<close> followed by \<^verbatim>\<open>Reflect.deleteProperty\<close>.\<close>

definition removeProfileFromList :: "selection \<Rightarrow> string \<Rightarrow> selection" where
  "removeProfileFromList list i = AList.delete i list"

subsection \<open>Imported helpers\<close>

text \<open>
  Modelled from the spec: \<^verbatim>\<open>alertErrorWithFallback\<close> of \<^verbatim>\<open>@utils/draft\<close> is not part
  of the sources. It "surfaces a user-visible error message (falling back to a generic
  message if the error carries no displayable reason)": one alert, whose text is the
  error's reason when there is one and the fallback otherwise.
\<close>

definition alertErrorWithFallback :: "api_error \<Rightarrow> string \<Rightarrow> screen \<Rightarrow> screen" where
  "alertErrorWithFallback err fallback s =
     s\<lparr>effects := effects s @ [Alert (case reason err of Some m \<Rightarrow> m | None \<Rightarrow> fallback)]\<rparr>"


text \<open>
  Modelled from the spec: \<^verbatim>\<open>debounce\<close> of \<^verbatim>\<open>@helpers/api/general\<close> is not part of the
  sources. "Debounce: delaying an action until input has paused for a fixed interval":
  a call of a debounced function schedules one run of the wrapped function, in place
  of the run that an earlier call of the same debounced function has scheduled, and
  the wrapped function runs later, when the event \<open>DebounceFires\<close> is delivered.
  The only debounced function of the screen is \<^verbatim>\<open>getProfiles\<close>; \<open>debounce\<close> is a call of
  the callback with number \<open>i\<close>, which closes over \<open>closure_loading\<close> and \<open>closure_term\<close>.
\<close>

definition debounce :: "nat \<Rightarrow> bool \<Rightarrow> string \<Rightarrow> screen \<Rightarrow> screen" where
  "debounce i closure_loading closure_term s =
     s\<lparr>debounced :=
         filter (\<lambda>p. fst p \<noteq> i) (debounced s) @ [(i, closure_loading, closure_term)]\<rparr>"

text \<open>\<^verbatim>\<open>String.prototype.toLowerCase\<close>, on the letters A to Z.\<close>

definition toLowerCase :: "string \<Rightarrow> string" where
  "toLowerCase str =
     map (\<lambda>c. case map_of (zip ''ABCDEFGHIJKLMNOPQRSTUVWXYZ'' ''abcdefghijklmnopqrstuvwxyz'') c of
                Some l \<Rightarrow> l
              | None \<Rightarrow> c) str"

text \<open>
  \<^verbatim>\<open>setTimeout\<close> and \<^verbatim>\<open>clearTimeout\<close> of the host. A new timer gets the next positive
  number as its id (a truthy value), and the callback of every timer of this screen is
  \<^verbatim>\<open>searchUsers(text)\<close>, so a pending timer is the pair of its id and that text.
\<close>

definition clearTimeout :: "nat \<Rightarrow> screen \<Rightarrow> screen" where
  "clearTimeout t s = s\<lparr>timers := filter (\<lambda>p. fst p \<noteq> t) (timers s)\<rparr>"

definition setTimeout :: "string \<Rightarrow> screen \<Rightarrow> nat \<times> screen" where
  "setTimeout text s =
     (Suc (timerCount s),
      s\<lparr>timerCount := Suc (timerCount s), timers := timers s @ [(Suc (timerCount s), text)]\<rparr>)"

subsection \<open>The component's values and callbacks\<close>

definition selectedCount :: "screen \<Rightarrow> nat" where
  "selectedCount s = length (selectedIds s)"

definition isSearch :: "screen \<Rightarrow> bool" where
  "isSearch s = (term_text s \<noteq> [])"

definition hasProfiles :: "screen \<Rightarrow> bool" where
  "hasProfiles s = (profiles s \<noteq> [])"

definition loadedProfiles :: "UserProfile list \<Rightarrow> screen \<Rightarrow> screen" where
  "loadedProfiles users s =
     (if mounted_current s then
        (let s1 = (if users = [] then s\<lparr>next_current := False\<rparr> else s)
         in s1\<lparr>page_current := page_current s1 + 1, loading := False,
               profiles := profiles s1 @ users\<rparr>)
      else s)"

text \<open>
  \<^verbatim>\<open>getProfiles\<close>. \<open>getProfiles_body\<close> is the function given to \<^verbatim>\<open>debounce\<close>: \<^verbatim>\<open>loading\<close> and
  \<^verbatim>\<open>term\<close> are the variables of its closure (the arguments \<open>closure_loading\<close> and
  \<open>closure_term\<close>), the refs are read from the state it runs in. The request that is sent
  is counted in \<open>fetchesInFlight\<close> until its response arrives.
  \<open>useCallback_getProfiles\<close> is the \<^verbatim>\<open>useCallback\<close> of a render: the callback is built
  again, with the \<^verbatim>\<open>loading\<close> and \<^verbatim>\<open>term\<close> of that render, when \<^verbatim>\<open>loading\<close> or \<^verbatim>\<open>isSearch\<close>
  differs from the render that built the last one (the other dependencies are props).
  \<open>getProfiles\<close> is a call of the callback of the last render.
\<close>

definition getProfiles_body :: "env \<Rightarrow> bool \<Rightarrow> string \<Rightarrow> screen \<Rightarrow> screen" where
  "getProfiles_body e closure_loading closure_term s =
     (if next_current s \<and> \<not> closure_loading \<and> closure_term = [] \<and> mounted_current s then
        s\<lparr>loading := True,
          effects := effects s @
            [FetchProfilesNotInChannel (serverUrl e) (currentTeamId e) (currentChannelId e)
               (groupConstrained e) (page_current s + 1) (PROFILE_CHUNK_SIZE e)],
          fetchesInFlight := Suc (fetchesInFlight s)\<rparr>
      else s)"

definition useCallback_getProfiles :: "screen \<Rightarrow> screen" where
  "useCallback_getProfiles s =
     (if loading s = getProfiles_loading s \<and> isSearch s = (getProfiles_term s \<noteq> []) then s
      else s\<lparr>getProfiles_instance := Suc (getProfiles_instance s),
             getProfiles_loading := loading s, getProfiles_term := term_text s\<rparr>)"

definition getProfiles :: "screen \<Rightarrow> screen" where
  "getProfiles s =
     debounce (getProfiles_instance s) (getProfiles_loading s) (getProfiles_term s) s"

definition handleRemoveProfile :: "string \<Rightarrow> screen \<Rightarrow> screen" where
  "handleRemoveProfile i s = s\<lparr>selectedIds := removeProfileFromList (selectedIds s) i\<rparr>"

text \<open>
  \<^verbatim>\<open>addPeopleToChannel\<close> up to its \<^verbatim>\<open>await\<close>, and from the response on. The response is
  its \<^verbatim>\<open>error\<close> field: an error object (truthy) or nothing.
\<close>

definition addPeopleToChannel :: "env \<Rightarrow> string list \<Rightarrow> screen \<Rightarrow> screen" where
  "addPeopleToChannel e ids s =
     s\<lparr>effects := effects s @
         [AddMembersToChannel (serverUrl e) (currentChannelId e) ids [] False]\<rparr>"

definition addPeopleToChannel_resume :: "api_error option \<Rightarrow> screen \<Rightarrow> bool \<times> screen" where
  "addPeopleToChannel_resume result_error s =
     (case result_error of
        Some err \<Rightarrow> (False, alertErrorWithFallback err messages_error s)
      | None \<Rightarrow> (True, s))"

definition clearSearch :: "screen \<Rightarrow> screen" where
  "clearSearch s = s\<lparr>loading := False, term_text := [], searchResults := []\<rparr>"

text \<open>
  \<^verbatim>\<open>startAddPeople\<close>: \<open>startAddPeople_finish\<close> is its last \<^verbatim>\<open>if (success)\<close>, reached at
  once when there is no id and after the response otherwise. The optional argument
  \<^verbatim>\<open>selectedId\<close> is an object (truthy, also when it has no key) or absent.
\<close>

definition startAddPeople_finish :: "bool \<Rightarrow> screen \<Rightarrow> screen" where
  "startAddPeople_finish success s =
     (if success then close s else s\<lparr>startingAddPeople := False\<rparr>)"

definition idsToUse :: "(string \<times> bool) list option \<Rightarrow> screen \<Rightarrow> string list" where
  "idsToUse selectedId s =
     (case selectedId of Some m \<Rightarrow> map fst m | None \<Rightarrow> map fst (selectedIds s))"

definition startAddPeople :: "env \<Rightarrow> (string \<times> bool) list option \<Rightarrow> screen \<Rightarrow> screen" where
  "startAddPeople e selectedId s =
     (if startingAddPeople s then s
      else
        (let s1 = s\<lparr>startingAddPeople := True\<rparr>
         in if idsToUse selectedId s = [] then startAddPeople_finish False s1
            else addPeopleToChannel e (idsToUse selectedId s) s1))"

definition startAddPeople_resume :: "api_error option \<Rightarrow> screen \<Rightarrow> screen" where
  "startAddPeople_resume result_error s =
     (case addPeopleToChannel_resume result_error s of
        (success, s1) \<Rightarrow> startAddPeople_finish success s1)"

text \<open>
  \<^verbatim>\<open>handleSelectProfile\<close>: \<open>current\<close> is the argument of the updater given to
  \<^verbatim>\<open>setSelectedIds\<close>, \<open>selectedCount\<close> the value of the last render.
\<close>

definition handleSelectProfile :: "env \<Rightarrow> UserProfile \<Rightarrow> screen \<Rightarrow> screen" where
  "handleSelectProfile e user s =
     (let s1 = clearSearch s; current = selectedIds s1
      in if map_of current (user_id user) \<noteq> None then
           s1\<lparr>selectedIds := removeProfileFromList current (user_id user)\<rparr>
         else
           (let wasSelected = (map_of current (user_id user) \<noteq> None)
            in if \<not> wasSelected \<and> selectedCount s \<ge> MAX_SELECTED_USERS e then
                 s1\<lparr>showToast := True\<rparr>
               else
                 s1\<lparr>selectedIds :=
                      (if \<not> wasSelected then AList.update (user_id user) user current
                       else current)\<rparr>))"

text \<open>
  \<^verbatim>\<open>searchUsers\<close> up to its \<^verbatim>\<open>await\<close>, and from the response on. The response is its
  \<^verbatim>\<open>data\<close> field: an array (truthy, also when it is empty) or nothing.
\<close>

definition searchUsers :: "env \<Rightarrow> string \<Rightarrow> screen \<Rightarrow> screen" where
  "searchUsers e searchTerm s =
     (let lowerCasedTerm = toLowerCase searchTerm
      in s\<lparr>loading := True,
           effects := effects s @
             [SearchProfiles (serverUrl e) lowerCasedTerm (currentTeamId e)
                (currentChannelId e) True]\<rparr>)"

definition searchUsers_resume :: "UserProfile list option \<Rightarrow> screen \<Rightarrow> screen" where
  "searchUsers_resume results_data s =
     (let dat = (case results_data of Some d \<Rightarrow> d | None \<Rightarrow> [])
      in s\<lparr>searchResults := dat, loading := False\<rparr>)"

definition search :: "env \<Rightarrow> screen \<Rightarrow> screen" where
  "search e s = searchUsers e (term_text s) s"

definition onSearch :: "string \<Rightarrow> screen \<Rightarrow> screen" where
  "onSearch text s =
     (let s1 = s\<lparr>loading := True\<rparr>
      in if text \<noteq> [] then
           (let s2 = s1\<lparr>term_text := text\<rparr>;
                s3 = (case searchTimeoutId_current s2 of
                        Some t \<Rightarrow> clearTimeout t s2
                      | None \<Rightarrow> s2)
            in case setTimeout text s3 of
                 (t, s4) \<Rightarrow> s4\<lparr>searchTimeoutId_current := Some t\<rparr>)
         else clearSearch s1)"

text \<open>The effect of mounting and its cleanup.\<close>

definition mount :: "screen \<Rightarrow> screen" where
  "mount s = getProfiles (s\<lparr>mounted_current := True\<rparr>)"

definition unmount :: "screen \<Rightarrow> screen" where
  "unmount s = s\<lparr>mounted_current := False\<rparr>"

text \<open>
  The effect on \<^verbatim>\<open>[selectedCount >= MAX_SELECTED_USERS]\<close>: it runs after the first
  render and after every render in which that value differs from the one of its last run.
\<close>

definition toastEffect :: "env \<Rightarrow> screen \<Rightarrow> screen" where
  "toastEffect e s =
     (let d = (selectedCount s \<ge> MAX_SELECTED_USERS e)
      in if toastDeps s = Some d then s else s\<lparr>showToast := d, toastDeps := Some d\<rparr>)"



subsection \<open>Events\<close>

text \<open>
  What the host can deliver to the component: the user's actions, a call of
  \<^verbatim>\<open>fetchMore\<close> by the list, a debounced call or a timer that fires, a response that
  arrives, and \<^verbatim>\<open>setShowToast\<close> called by the selected-users tray. A debounced call that
  fires leaves the table of scheduled calls and runs the body with the closure of the
  callback that was called; a timer that fires leaves the table of pending timers and
  runs its callback; one that is not scheduled does nothing. A response to a profile
  request ends that request. \<open>step\<close> is one event followed by the render and the toast
  effect.
\<close>

datatype event =
    Mount
  | Unmount
  | GetProfiles
  | DebounceFires nat
  | FetchDone "UserProfile list"
  | HandleRemoveProfile string
  | StartAddPeople "(string \<times> bool) list option"
  | AddMembersDone "api_error option"
  | HandleSelectProfile UserProfile
  | Search
  | OnSearch string
  | ClearSearch
  | TimerFires nat
  | SearchDone "UserProfile list option"
  | SetShowToast bool

definition handle :: "env \<Rightarrow> event \<Rightarrow> screen \<Rightarrow> screen" where
  "handle e ev s =
     (case ev of
        Mount \<Rightarrow> mount s
      | Unmount \<Rightarrow> unmount s
      | GetProfiles \<Rightarrow> getProfiles s
      | DebounceFires i \<Rightarrow>
          (case map_of (debounced s) i of
             Some (closure_loading, closure_term) \<Rightarrow>
               getProfiles_body e closure_loading closure_term
                 (s\<lparr>debounced := filter (\<lambda>p. fst p \<noteq> i) (debounced s)\<rparr>)
           | None \<Rightarrow> s)
      | FetchDone users \<Rightarrow> loadedProfiles users (s\<lparr>fetchesInFlight := fetchesInFlight s - 1\<rparr>)
      | HandleRemoveProfile i \<Rightarrow> handleRemoveProfile i s
      | StartAddPeople selectedId \<Rightarrow> startAddPeople e selectedId s
      | AddMembersDone result_error \<Rightarrow> startAddPeople_resume result_error s
      | HandleSelectProfile user \<Rightarrow> handleSelectProfile e user s
      | Search \<Rightarrow> search e s
      | OnSearch text \<Rightarrow> onSearch text s
      | ClearSearch \<Rightarrow> clearSearch s
      | TimerFires t \<Rightarrow>
          (case map_of (timers s) t of
             Some text \<Rightarrow> searchUsers e text (clearTimeout t s)
           | None \<Rightarrow> s)
      | SearchDone results_data \<Rightarrow> searchUsers_resume results_data s
      | SetShowToast b \<Rightarrow> s\<lparr>showToast := b\<rparr>)"

definition step :: "env \<Rightarrow> screen \<Rightarrow> event \<Rightarrow> screen" where
  "step e s ev = toastEffect e (useCallback_getProfiles (handle e ev s))"

definition run :: "env \<Rightarrow> screen \<Rightarrow> event list \<Rightarrow> screen" where
  "run e s evs = foldl (step e) s evs"

subsection \<open>Concrete inputs\<close>

text \<open>A configuration with a cap of two users, and three profiles.\<close>

definition example_env :: env where
  "example_env = \<lparr> serverUrl = ''https://chat.example'', currentChannelId = ''c1'',
     groupConstrained = False, currentTeamId = ''t1'', currentUserId = ''me'',
     MAX_USERS_ADD_TO_CHANNEL = 2, PROFILE_CHUNK_SIZE = 100 \<rparr>"

definition albert :: UserProfile where
  "albert = \<lparr> user_id = ''u1'', username = ''albert'' \<rparr>"

definition alice :: UserProfile where
  "alice = \<lparr> user_id = ''u2'', username = ''alice'' \<rparr>"

definition ball :: UserProfile where
  "ball = \<lparr> user_id = ''u3'', username = ''ball'' \<rparr>"

text \<open>The mounted screen with two users selected, which is the cap of \<open>example_env\<close>.\<close>

definition two_selected :: screen where
  "two_selected =
     run example_env initial [Mount, HandleSelectProfile albert, HandleSelectProfile alice]"

text \<open>
  The first page has arrived, the list has called \<^verbatim>\<open>fetchMore\<close>, the second page is
  requested, and the user toggles a profile of the first page before the second page
  arrives.
\<close>

definition fetching_after_toggle :: screen where
  "fetching_after_toggle =
     run example_env initial
       [Mount, DebounceFires 0, FetchDone [albert], GetProfiles, DebounceFires 2,
        HandleSelectProfile albert]"

text \<open>
  The first page has arrived, the list has called \<^verbatim>\<open>fetchMore\<close>, and the user types a
  character before the debounced call fires.
\<close>

definition typing_after_fetchMore :: screen where
  "typing_after_fetchMore =
     run example_env initial
       [Mount, DebounceFires 0, FetchDone [albert], GetProfiles, OnSearch ''a'']"

text \<open>The user types one character and deletes it before the search timer fires.\<close>

definition cleared_after_keystroke :: screen where
  "cleared_after_keystroke = run example_env initial [Mount, OnSearch ''a'', OnSearch []]"

text \<open>A search request is sent, and the screen is torn down before its response arrives.\<close>

definition searching_unmounted :: screen where
  "searching_unmounted =
     run example_env initial [Mount, OnSearch ''A'', TimerFires 1, Unmount]"

section \<open>Properties\<close>

lemmas handler_defs =
  mount_def unmount_def getProfiles_def getProfiles_body_def debounce_def
  loadedProfiles_def handleRemoveProfile_def
  startAddPeople_def startAddPeople_resume_def startAddPeople_finish_def
  addPeopleToChannel_def addPeopleToChannel_resume_def alertErrorWithFallback_def
  close_def handleSelectProfile_def search_def searchUsers_def searchUsers_resume_def
  onSearch_def clearSearch_def clearTimeout_def setTimeout_def

lemmas run_defs =
  run_def step_def handle_def toastEffect_def useCallback_getProfiles_def isSearch_def
  selectedCount_def MAX_SELECTED_USERS_def removeProfileFromList_def

lemmas example_defs =
  example_env_def albert_def alice_def ball_def initial_def two_selected_def
  fetching_after_toggle_def typing_after_fetchMore_def cleared_after_keystroke_def
  searching_unmounted_def

subsection \<open>The selection and its cap\<close>

lemma toastEffect_selectedIds [simp]: "selectedIds (toastEffect e s) = selectedIds s"
  by (simp add: toastEffect_def Let_def)

lemma selectedCount_toastEffect [simp]: "selectedCount (toastEffect e s) = selectedCount s"
  by (simp add: selectedCount_def)

lemma useCallback_selectedIds [simp]:
  "selectedIds (useCallback_getProfiles s) = selectedIds s"
  by (simp add: useCallback_getProfiles_def)

lemma useCallback_selectedCount [simp]:
  "selectedCount (useCallback_getProfiles s) = selectedCount s"
  by (simp add: selectedCount_def)

lemma map_of_None_keys: "map_of al k = None \<longleftrightarrow> k \<notin> fst ` set al"
  by (simp add: map_of_eq_None_iff)

lemma length_update_fresh:
  "map_of al k = None \<Longrightarrow> length (AList.update k v al) = Suc (length al)"
  by (induction al) (auto split: if_splits)

lemma handleSelectProfile_count:
  "selectedCount s \<le> MAX_SELECTED_USERS e \<Longrightarrow>
   selectedCount (handleSelectProfile e user s) \<le> MAX_SELECTED_USERS e"
  using AList.length_delete_le [of "user_id user" "selectedIds s"]
  by (auto simp add: handleSelectProfile_def clearSearch_def selectedCount_def
      removeProfileFromList_def Let_def length_update_fresh)

text \<open>Only \<^verbatim>\<open>handleSelectProfile\<close> adds to the selection, so no event breaks the cap.\<close>

lemma handle_count:
  "selectedCount s \<le> MAX_SELECTED_USERS e \<Longrightarrow>
   selectedCount (handle e ev s) \<le> MAX_SELECTED_USERS e"
proof (cases ev)
  case (HandleSelectProfile user)
  assume "selectedCount s \<le> MAX_SELECTED_USERS e"
  then show ?thesis
    using HandleSelectProfile handleSelectProfile_count by (simp add: handle_def)
next
  case (HandleRemoveProfile i)
  assume "selectedCount s \<le> MAX_SELECTED_USERS e"
  then show ?thesis
    using HandleRemoveProfile AList.length_delete_le [of i "selectedIds s"]
    by (simp add: handle_def handleRemoveProfile_def removeProfileFromList_def selectedCount_def)
qed (auto simp add: handle_def handler_defs selectedCount_def Let_def split: option.splits)

lemma run_count:
  "selectedCount s \<le> MAX_SELECTED_USERS e \<Longrightarrow>
   selectedCount (run e s evs) \<le> MAX_SELECTED_USERS e"
proof (induction evs arbitrary: s)
  case Nil
  then show ?case by (simp add: run_def)
next
  case (Cons ev evs)
  have "selectedCount (step e s ev) \<le> MAX_SELECTED_USERS e"
    using Cons.prems by (simp add: step_def handle_count)
  then have "selectedCount (run e (step e s ev) evs) \<le> MAX_SELECTED_USERS e"
    by (rule Cons.IH)
  then show ?case by (simp add: run_def)
qed

lemma rejected_at_cap:
  assumes "map_of (selectedIds s) (user_id user) = None"
    and "MAX_SELECTED_USERS e \<le> selectedCount s"
  shows "selectedIds (step e s (HandleSelectProfile user)) = selectedIds s"
    and "showToast (step e s (HandleSelectProfile user))"
  using assms
  by (simp_all add: step_def handle_def handleSelectProfile_def clearSearch_def
      toastEffect_def useCallback_getProfiles_def selectedCount_def Let_def)

text \<open>
  C1. From a state with the empty selection, after every sequence of events (the
  selection toggles \<open>HandleSelectProfile\<close> among them, each followed by its render) the
  number of selected users is at most \<^verbatim>\<open>MAX_SELECTED_USERS\<close>; and a toggle of a user who
  is not selected, performed when the size is at the cap, leaves the selection as it
  is and \<^verbatim>\<open>showToast\<close> is true after it.
\<close>

theorem selection_never_exceeds_cap:
  assumes "selectedIds s0 = []"
  shows "selectedCount (run e s0 evs) \<le> MAX_SELECTED_USERS e \<and>
    (\<forall>user. map_of (selectedIds (run e s0 evs)) (user_id user) = None \<and>
            MAX_SELECTED_USERS e \<le> selectedCount (run e s0 evs) \<longrightarrow>
       selectedIds (step e (run e s0 evs) (HandleSelectProfile user))
         = selectedIds (run e s0 evs) \<and>
       showToast (step e (run e s0 evs) (HandleSelectProfile user)))"
proof -
  have "selectedCount s0 \<le> MAX_SELECTED_USERS e"
    using assms by (simp add: selectedCount_def)
  then have "selectedCount (run e s0 evs) \<le> MAX_SELECTED_USERS e"
    by (rule run_count)
  then show ?thesis
    using rejected_at_cap by blast
qed

text \<open>With a cap of two: after two users are selected, the toggle of a third is rejected.\<close>

theorem selection_never_exceeds_cap_witness:
  "selectedIds initial = [] \<and>
   selectedCount
     (run example_env initial [Mount, HandleSelectProfile albert, HandleSelectProfile alice])
     = MAX_SELECTED_USERS example_env \<and>
   map_of (selectedIds
     (run example_env initial [Mount, HandleSelectProfile albert, HandleSelectProfile alice]))
     (user_id ball) = None \<and>
   selectedIds (step example_env
      (run example_env initial [Mount, HandleSelectProfile albert, HandleSelectProfile alice])
      (HandleSelectProfile ball))
     = [(''u1'', albert), (''u2'', alice)] \<and>
   showToast (step example_env
      (run example_env initial [Mount, HandleSelectProfile albert, HandleSelectProfile alice])
      (HandleSelectProfile ball))"
  using selection_never_exceeds_cap [of initial example_env
      "[Mount, HandleSelectProfile albert, HandleSelectProfile alice]"]
  by (simp add: run_defs handler_defs example_defs Let_def)

lemma delete_update_fresh:
  "map_of al k = None \<Longrightarrow> AList.delete k (AList.update k v al) = al"
  by (induction al) (auto split: if_splits)

lemma length_delete_less:
  "map_of al k \<noteq> None \<Longrightarrow> length (AList.delete k al) < length al"
  by (induction al) (auto simp add: less_Suc_eq_le AList.length_delete_le split: if_splits)

lemma toggle_selectedIds:
  "selectedIds (step e s (HandleSelectProfile user)) =
     (if map_of (selectedIds s) (user_id user) \<noteq> None
      then AList.delete (user_id user) (selectedIds s)
      else if MAX_SELECTED_USERS e \<le> selectedCount s then selectedIds s
      else AList.update (user_id user) user (selectedIds s))"
  by (simp add: step_def handle_def handleSelectProfile_def clearSearch_def
      removeProfileFromList_def Let_def)

text \<open>
  Two toggles of the same user: a user who was not selected is added and removed again
  (or rejected twice at the cap); a user who was selected is removed and then added at
  the end of the key order, with the profile passed to the toggle.
\<close>

lemma toggle_twice_selectedIds:
  assumes "selectedCount s \<le> MAX_SELECTED_USERS e"
  shows "selectedIds (step e (step e s (HandleSelectProfile user)) (HandleSelectProfile user)) =
     (if map_of (selectedIds s) (user_id user) = None then selectedIds s
      else AList.update (user_id user) user (AList.delete (user_id user) (selectedIds s)))"
proof (cases "map_of (selectedIds s) (user_id user) = None")
  case True
  then show ?thesis
    by (simp add: toggle_selectedIds selectedCount_def AList.update_conv'
        delete_update_fresh removeProfileFromList_def step_def [symmetric])
next
  case False
  then have "length (AList.delete (user_id user) (selectedIds s)) < length (selectedIds s)"
    by (rule length_delete_less)
  then have "\<not> MAX_SELECTED_USERS e \<le> length (AList.delete (user_id user) (selectedIds s))"
    using assms by (simp add: selectedCount_def)
  moreover obtain y where "map_of (selectedIds s) (user_id user) = Some y"
    using False by auto
  ultimately show ?thesis
    by (simp add: toggle_selectedIds selectedCount_def AList.delete_conv')
qed

text \<open>
  C9. For every selection within the cap and every user, toggling that user twice in
  succession returns the selection to its original state: the set of selected ids is
  the same, the entry of every other id is untouched, a user who was not selected
  leaves the selection exactly as it was, and a user who was selected with the profile
  that is toggled leaves the same mapping from ids to profiles.
\<close>

theorem toggle_twice_restores_selection:
  assumes "selectedCount s \<le> MAX_SELECTED_USERS e"
  shows
    "fst ` set (selectedIds
        (step e (step e s (HandleSelectProfile user)) (HandleSelectProfile user)))
       = fst ` set (selectedIds s) \<and>
     (\<forall>k. k \<noteq> user_id user \<longrightarrow>
        map_of (selectedIds
          (step e (step e s (HandleSelectProfile user)) (HandleSelectProfile user))) k
          = map_of (selectedIds s) k) \<and>
     (map_of (selectedIds s) (user_id user) = None \<longrightarrow>
        selectedIds (step e (step e s (HandleSelectProfile user)) (HandleSelectProfile user))
          = selectedIds s) \<and>
     (map_of (selectedIds s) (user_id user) = Some user \<longrightarrow>
        map_of (selectedIds
          (step e (step e s (HandleSelectProfile user)) (HandleSelectProfile user)))
          = map_of (selectedIds s))"
proof (cases "map_of (selectedIds s) (user_id user) = None")
  case True
  then show ?thesis
    using toggle_twice_selectedIds [OF assms, of user] by simp
next
  case False
  then have mem: "user_id user \<in> fst ` set (selectedIds s)"
    by (simp add: map_of_None_keys)
  have eq: "selectedIds (step e (step e s (HandleSelectProfile user)) (HandleSelectProfile user))
      = AList.update (user_id user) user (AList.delete (user_id user) (selectedIds s))"
    using toggle_twice_selectedIds [OF assms, of user] False by simp
  have keys: "fst ` set (AList.delete (user_id user) (selectedIds s))
      = fst ` set (selectedIds s) - {user_id user}"
    by (auto simp add: AList.delete_eq image_iff)
  have "fst ` set (AList.update (user_id user) user (AList.delete (user_id user) (selectedIds s)))
      = fst ` set (selectedIds s)"
    using mem by (auto simp add: AList.dom_update keys)
  moreover have
    "map_of (AList.update (user_id user) user (AList.delete (user_id user) (selectedIds s)))
      = (map_of (selectedIds s))(user_id user \<mapsto> user)"
    by (simp add: AList.update_conv' AList.delete_conv')
  ultimately show ?thesis
    using False by (auto simp add: eq fun_upd_idem)
qed

text \<open>
  At the cap of two: a selected user toggled twice is selected again, and a user who is
  not selected is rejected twice.
\<close>

theorem toggle_twice_restores_selection_witness:
  "selectedCount two_selected \<le> MAX_SELECTED_USERS example_env \<and>
   map_of (selectedIds two_selected) (user_id albert) = Some albert \<and>
   fst ` set (selectedIds
      (step example_env (step example_env two_selected (HandleSelectProfile albert))
         (HandleSelectProfile albert)))
     = fst ` set (selectedIds two_selected) \<and>
   map_of (selectedIds
      (step example_env (step example_env two_selected (HandleSelectProfile albert))
         (HandleSelectProfile albert)))
     = map_of (selectedIds two_selected) \<and>
   map_of (selectedIds two_selected) (user_id ball) = None \<and>
   selectedIds
      (step example_env (step example_env two_selected (HandleSelectProfile ball))
         (HandleSelectProfile ball))
     = selectedIds two_selected"
  using toggle_twice_restores_selection [of two_selected example_env albert]
    toggle_twice_restores_selection [of two_selected example_env ball]
  by (simp add: run_defs handler_defs example_defs Let_def)

subsection \<open>Search state\<close>

text \<open>
  C10. Every call of \<^verbatim>\<open>handleSelectProfile\<close> clears the search state: after it the term
  is empty, the search results are the empty list and the loading flag is false,
  whether the user is added, removed or rejected at the cap.
\<close>

theorem handleSelectProfile_clears_search:
  "term_text (handleSelectProfile e user s) = [] \<and>
   searchResults (handleSelectProfile e user s) = [] \<and>
   loading (handleSelectProfile e user s) = False"
  by (simp add: handleSelectProfile_def clearSearch_def Let_def)

text \<open>
  The timer table holds at most one timer, and \<^verbatim>\<open>searchTimeoutId.current\<close> is its id:
  \<^verbatim>\<open>onSearch\<close> clears the timer of the ref before it sets a new one.
\<close>

lemma one_timer_handle:
  assumes "\<forall>p \<in> set (timers s). searchTimeoutId_current s = Some (fst p)"
    and "length (timers s) \<le> 1"
  shows "(\<forall>p \<in> set (timers (handle e ev s)).
            searchTimeoutId_current (handle e ev s) = Some (fst p))
     \<and> length (timers (handle e ev s)) \<le> 1"
proof (cases ev)
  case (OnSearch str)
  have "filter (\<lambda>p. fst p \<noteq> t) (timers s) = []" if "searchTimeoutId_current s = Some t" for t
    using that assms(1) by (auto simp add: filter_empty_conv)
  moreover have "timers s = []" if "searchTimeoutId_current s = None"
    using that assms(1) by (cases "timers s") auto
  ultimately show ?thesis
    using OnSearch assms
    by (auto simp add: handle_def handler_defs Let_def split: option.splits)
next
  case (TimerFires t)
  have "length (filter (\<lambda>p. fst p \<noteq> t) (timers s)) \<le> 1"
    using assms(2) length_filter_le [of "\<lambda>p. fst p \<noteq> t" "timers s"] by linarith
  then show ?thesis
    using TimerFires assms
    by (auto simp add: handle_def handler_defs Let_def split: option.splits)
qed (use assms in \<open>auto simp add: handle_def handler_defs Let_def split: option.splits\<close>)

lemma one_timer_run:
  assumes "\<forall>p \<in> set (timers s). searchTimeoutId_current s = Some (fst p)"
    and "length (timers s) \<le> 1"
  shows "(\<forall>p \<in> set (timers (run e s evs)).
            searchTimeoutId_current (run e s evs) = Some (fst p))
     \<and> length (timers (run e s evs)) \<le> 1"
  using assms
proof (induction evs arbitrary: s)
  case Nil
  then show ?case by (simp add: run_def)
next
  case (Cons ev evs)
  have "(\<forall>p \<in> set (timers (step e s ev)). searchTimeoutId_current (step e s ev) = Some (fst p))
     \<and> length (timers (step e s ev)) \<le> 1"
    using one_timer_handle [OF Cons.prems, of e ev]
    by (simp add: step_def toastEffect_def useCallback_getProfiles_def Let_def)
  then have "(\<forall>p \<in> set (timers (run e (step e s ev) evs)).
        searchTimeoutId_current (run e (step e s ev) evs) = Some (fst p))
     \<and> length (timers (run e (step e s ev) evs)) \<le> 1"
    using Cons.IH by blast
  then show ?case by (simp add: run_def)
qed

lemma at_most_one_pending_timer: "length (timers (run e initial evs)) \<le> 1"
  using one_timer_run [of initial e evs] by (simp add: initial_def)

text \<open>
  C2. What \<^verbatim>\<open>onSearch\<close> does with the pending timer. A keystroke that leaves a text
  cancels the pending timer and sets a new one: after "a" and then "ab" the only timer
  is the second, for "ab". A keystroke that leaves the empty text calls \<^verbatim>\<open>clearSearch\<close>
  and does not touch the timer: after "a" and then the empty text, the timer for "a" is
  still pending while the term is empty and nothing is loading; when it fires, the
  search for "a" is sent and the loading flag is set.
\<close>

theorem onSearch_empty_keeps_timer:
  "timers (run example_env initial [Mount, OnSearch ''a'', OnSearch ''ab'']) = [(2, ''ab'')] \<and>
   timers (run example_env initial [Mount, OnSearch ''a'']) = [(1, ''a'')] \<and>
   timers cleared_after_keystroke = [(1, ''a'')] \<and>
   term_text cleared_after_keystroke = [] \<and>
   \<not> loading cleared_after_keystroke \<and>
   effects cleared_after_keystroke = [] \<and>
   effects (step example_env cleared_after_keystroke (TimerFires 1)) =
     [SearchProfiles ''https://chat.example'' ''a'' ''t1'' ''c1'' True] \<and>
   loading (step example_env cleared_after_keystroke (TimerFires 1))"
  by (simp add: run_defs handler_defs example_defs toLowerCase_def Let_def)

text \<open>
  C3. The two completions on a screen that was torn down while a search was in flight.
  The continuation of \<^verbatim>\<open>searchUsers\<close> does not read \<^verbatim>\<open>mounted.current\<close>: it stores the
  response in \<^verbatim>\<open>searchResults\<close> and clears the loading flag. \<^verbatim>\<open>loadedProfiles\<close> reads the
  flag and leaves the state as it is.
\<close>

theorem search_response_after_unmount:
  "\<not> mounted_current searching_unmounted \<and>
   effects searching_unmounted =
     [SearchProfiles ''https://chat.example'' ''a'' ''t1'' ''c1'' True] \<and>
   searchResults searching_unmounted = [] \<and>
   loading searching_unmounted \<and>
   searchResults (step example_env searching_unmounted (SearchDone (Some [albert])))
     = [albert] \<and>
   \<not> loading (step example_env searching_unmounted (SearchDone (Some [albert]))) \<and>
   loadedProfiles [albert] searching_unmounted = searching_unmounted"
  by (simp add: run_defs handler_defs example_defs toLowerCase_def Let_def)

subsection \<open>Pagination\<close>

lemma toastEffect_next [simp]: "next_current (toastEffect e s) = next_current s"
  by (simp add: toastEffect_def Let_def)

lemma useCallback_next [simp]: "next_current (useCallback_getProfiles s) = next_current s"
  by (simp add: useCallback_getProfiles_def)

text \<open>No callback sets \<^verbatim>\<open>next.current\<close> back to true.\<close>

lemma handle_next_false: "\<not> next_current s \<Longrightarrow> \<not> next_current (handle e ev s)"
  by (cases ev)
    (auto simp add: handle_def handler_defs Let_def split: option.splits prod.splits)

lemma run_next_false: "\<not> next_current s \<Longrightarrow> \<not> next_current (run e s evs)"
proof (induction evs arbitrary: s)
  case Nil
  then show ?case by (simp add: run_def)
next
  case (Cons ev evs)
  have "\<not> next_current (step e s ev)"
    using Cons.prems by (simp add: step_def handle_next_false)
  then have "\<not> next_current (run e (step e s ev) evs)"
    by (rule Cons.IH)
  then show ?case by (simp add: run_def)
qed

text \<open>
  The part of the contract of \<^verbatim>\<open>fetchMore\<close> that rests on \<^verbatim>\<open>next.current\<close>: once a response
  with no user has arrived on the mounted component, the body of \<^verbatim>\<open>getProfiles\<close> sends
  no request, whatever its closure holds and whatever happens in between.
\<close>

lemma no_request_after_empty_page:
  assumes "mounted_current s"
  shows "getProfiles_body e closure_loading closure_term (run e (step e s (FetchDone [])) evs)
    = run e (step e s (FetchDone [])) evs"
proof -
  have "\<not> next_current (step e s (FetchDone []))"
    using assms by (simp add: step_def handle_def loadedProfiles_def Let_def)
  then have "\<not> next_current (run e (step e s (FetchDone [])) evs)"
    by (rule run_next_false)
  then show ?thesis
    by (simp add: getProfiles_body_def)
qed

text \<open>
  C4. Two runs in which \<^verbatim>\<open>fetchMore\<close> sends a request although the claim says it is a
  no-op. In the first, page 1 is requested and in flight when the user toggles a
  profile: \<^verbatim>\<open>handleSelectProfile\<close> calls \<^verbatim>\<open>clearSearch\<close>, which sets the loading flag to
  false, and the next call of \<^verbatim>\<open>fetchMore\<close> requests page 1 a second time. After both
  responses the page of the second response is appended twice, \<^verbatim>\<open>page.current\<close> is 2 and
  the next request is for page 3. In the second, the list calls \<^verbatim>\<open>fetchMore\<close> and the
  user types a character before the debounced call fires: the body reads the
  \<^verbatim>\<open>loading\<close> and \<^verbatim>\<open>term\<close> of the render that built the callback, and requests page 1
  while the term is "a" and the loading flag is set.
\<close>

theorem fetchMore_requests_while_in_flight:
  "fetchesInFlight fetching_after_toggle = 1 \<and>
   \<not> loading fetching_after_toggle \<and>
   effects fetching_after_toggle =
     [FetchProfilesNotInChannel ''https://chat.example'' ''t1'' ''c1'' False 0 100,
      FetchProfilesNotInChannel ''https://chat.example'' ''t1'' ''c1'' False 1 100] \<and>
   effects (run example_env fetching_after_toggle [GetProfiles, DebounceFires 4]) =
     [FetchProfilesNotInChannel ''https://chat.example'' ''t1'' ''c1'' False 0 100,
      FetchProfilesNotInChannel ''https://chat.example'' ''t1'' ''c1'' False 1 100,
      FetchProfilesNotInChannel ''https://chat.example'' ''t1'' ''c1'' False 1 100] \<and>
   fetchesInFlight (run example_env fetching_after_toggle [GetProfiles, DebounceFires 4]) = 2 \<and>
   profiles (run example_env fetching_after_toggle
      [GetProfiles, DebounceFires 4, FetchDone [alice], FetchDone [alice]])
     = [albert, alice, alice] \<and>
   effects (run example_env fetching_after_toggle
      [GetProfiles, DebounceFires 4, FetchDone [alice], FetchDone [alice],
       GetProfiles, DebounceFires 6]) =
     [FetchProfilesNotInChannel ''https://chat.example'' ''t1'' ''c1'' False 0 100,
      FetchProfilesNotInChannel ''https://chat.example'' ''t1'' ''c1'' False 1 100,
      FetchProfilesNotInChannel ''https://chat.example'' ''t1'' ''c1'' False 1 100,
      FetchProfilesNotInChannel ''https://chat.example'' ''t1'' ''c1'' False 3 100] \<and>
   term_text typing_after_fetchMore = ''a'' \<and>
   loading typing_after_fetchMore \<and>
   fetchesInFlight typing_after_fetchMore = 0 \<and>
   effects typing_after_fetchMore =
     [FetchProfilesNotInChannel ''https://chat.example'' ''t1'' ''c1'' False 0 100] \<and>
   effects (step example_env typing_after_fetchMore (DebounceFires 2)) =
     [FetchProfilesNotInChannel ''https://chat.example'' ''t1'' ''c1'' False 0 100,
      FetchProfilesNotInChannel ''https://chat.example'' ''t1'' ''c1'' False 1 100]"
  by (simp add: run_defs handler_defs example_defs Let_def)

subsection \<open>Submission\<close>

text \<open>
  C6. A submission with no selected id calls no collaborator: the membership API is not
  called, no alert is shown and the screen is not closed. When the submit control was
  enabled (\<^verbatim>\<open>startingAddPeople\<close> false, the only state in which the control is rendered),
  the flag is false again after the call and the state is the one before it.
\<close>

theorem submit_empty_selection:
  "(idsToUse selectedId s = [] \<longrightarrow>
      effects (startAddPeople e selectedId s) = effects s) \<and>
   (idsToUse selectedId s = [] \<and> \<not> startingAddPeople s \<longrightarrow>
      \<not> startingAddPeople (startAddPeople e selectedId s) \<and>
      startAddPeople e selectedId s = s)"
  by (simp add: startAddPeople_def startAddPeople_finish_def Let_def)

theorem submit_empty_selection_witness:
  "idsToUse None initial = [] \<and> \<not> startingAddPeople initial \<and>
   effects (startAddPeople example_env None initial) = [] \<and>
   \<not> startingAddPeople (startAddPeople example_env None initial) \<and>
   idsToUse (Some []) two_selected = [] \<and>
   startAddPeople example_env (Some []) two_selected = two_selected"
  using submit_empty_selection [of None initial example_env]
    submit_empty_selection [of "Some []" two_selected example_env]
  by (simp add: idsToUse_def run_defs handler_defs example_defs Let_def)

text \<open>
  C7. When the membership call returns an error, the continuation of \<^verbatim>\<open>startAddPeople\<close>
  appends exactly one alert (with the error's reason, or \<^verbatim>\<open>messages.error\<close> when it has
  none), does not close the screen and sets \<^verbatim>\<open>startingAddPeople\<close> to false. A whole failed
  submission from an enabled control is one API call followed by that one alert.
\<close>

theorem failed_submission:
  "startAddPeople_resume (Some err) s =
     s\<lparr>effects := effects s @
          [Alert (case reason err of Some m \<Rightarrow> m | None \<Rightarrow> messages_error)],
       startingAddPeople := False\<rparr> \<and>
   (\<not> startingAddPeople s \<and> idsToUse selectedId s \<noteq> [] \<longrightarrow>
      effects (startAddPeople_resume (Some err) (startAddPeople e selectedId s)) =
        effects s @
          [AddMembersToChannel (serverUrl e) (currentChannelId e) (idsToUse selectedId s)
             [] False,
           Alert (case reason err of Some m \<Rightarrow> m | None \<Rightarrow> messages_error)] \<and>
      \<not> startingAddPeople (startAddPeople_resume (Some err) (startAddPeople e selectedId s)))"
  by (simp add: startAddPeople_resume_def addPeopleToChannel_resume_def
      alertErrorWithFallback_def startAddPeople_finish_def startAddPeople_def
      addPeopleToChannel_def Let_def)

theorem failed_submission_witness:
  "\<not> startingAddPeople two_selected \<and> idsToUse None two_selected = [''u1'', ''u2''] \<and>
   effects (startAddPeople_resume (Some (ApiError None))
              (startAddPeople example_env None two_selected)) =
     [AddMembersToChannel ''https://chat.example'' ''c1'' [''u1'', ''u2''] [] False,
      Alert messages_error] \<and>
   effects (startAddPeople_resume (Some (ApiError (Some ''No permission'')))
              (startAddPeople example_env None two_selected)) =
     [AddMembersToChannel ''https://chat.example'' ''c1'' [''u1'', ''u2''] [] False,
      Alert ''No permission''] \<and>
   \<not> startingAddPeople (startAddPeople_resume (Some (ApiError None))
              (startAddPeople example_env None two_selected))"
  using failed_submission [of "ApiError None" two_selected None example_env]
    failed_submission [of "ApiError (Some ''No permission'')" two_selected None example_env]
  by (simp add: idsToUse_def run_defs handler_defs example_defs Let_def)

text \<open>
  C8. When the membership call succeeds, the continuation of \<^verbatim>\<open>startAddPeople\<close> closes
  the screen once (the keyboard is dismissed, then the top screen is popped), shows no
  alert and leaves \<^verbatim>\<open>startingAddPeople\<close> as it is: true, for a submission that started from
  an enabled control.
\<close>

theorem successful_submission:
  "startAddPeople_resume None s =
     s\<lparr>effects := effects s @ [KeyboardDismiss, PopTopScreen]\<rparr> \<and>
   (\<not> startingAddPeople s \<and> idsToUse selectedId s \<noteq> [] \<longrightarrow>
      effects (startAddPeople_resume None (startAddPeople e selectedId s)) =
        effects s @
          [AddMembersToChannel (serverUrl e) (currentChannelId e) (idsToUse selectedId s)
             [] False,
           KeyboardDismiss, PopTopScreen] \<and>
      startingAddPeople (startAddPeople_resume None (startAddPeople e selectedId s)))"
  by (simp add: startAddPeople_resume_def addPeopleToChannel_resume_def
      startAddPeople_finish_def startAddPeople_def addPeopleToChannel_def close_def Let_def)

theorem successful_submission_witness:
  "\<not> startingAddPeople two_selected \<and> idsToUse None two_selected = [''u1'', ''u2''] \<and>
   effects (startAddPeople_resume None (startAddPeople example_env None two_selected)) =
     [AddMembersToChannel ''https://chat.example'' ''c1'' [''u1'', ''u2''] [] False,
      KeyboardDismiss, PopTopScreen] \<and>
   startingAddPeople (startAddPeople_resume None (startAddPeople example_env None two_selected))"
  using successful_submission [of two_selected None example_env]
  by (simp add: idsToUse_def run_defs handler_defs example_defs Let_def)

subsection \<open>The displayed list\<close>





end
